theory Spec2Isabelle
  imports Main "HOL-Library.Word"
begin

section \<open>Strings of the source language\<close>

text \<open>
  The program is JavaScript (\<^verbatim>\<open>src/index.js\<close>). A JavaScript string is a sequence of
  16-bit code units; \<^verbatim>\<open>slice\<close>, \<^verbatim>\<open>trim\<close>, \<^verbatim>\<open>split\<close> and the regular expressions of the
  source (none has the \<^verbatim>\<open>u\<close> flag) all work on code units. A string is therefore a list
  of 16-bit words. \<open>js\<close> writes an ASCII literal.
\<close>

type_synonym jschar = "16 word"
type_synonym jsstring = "jschar list"

definition js :: "string \<Rightarrow> jsstring" where
  "js s = map of_char s"

text \<open>
  \<^verbatim>\<open>\s\<close> in a regular expression and the characters removed by \<^verbatim>\<open>trim()\<close> are the same
  set: WhiteSpace and LineTerminator of ECMAScript, that is
  \<^verbatim>\<open>[\t\n\v\f\r \u00a0\u1680\u2000-\u200a\u2028\u2029\u202f\u205f\u3000\ufeff]\<close>.
\<close>

definition is_ws :: "jschar \<Rightarrow> bool" where
  "is_ws c \<longleftrightarrow>
     c = 0x09 \<or> c = 0x0A \<or> c = 0x0B \<or> c = 0x0C \<or> c = 0x0D \<or> c = 0x20 \<or>
     c = 0xA0 \<or> c = 0x1680 \<or> (0x2000 \<le> c \<and> c \<le> 0x200A) \<or>
     c = 0x2028 \<or> c = 0x2029 \<or> c = 0x202F \<or> c = 0x205F \<or> c = 0x3000 \<or> c = 0xFEFF"

text \<open>\<^verbatim>\<open>\d\<close> is \<^verbatim>\<open>[0-9]\<close>.\<close>

definition is_digit :: "jschar \<Rightarrow> bool" where
  "is_digit c \<longleftrightarrow> 0x30 \<le> c \<and> c \<le> 0x39"

text \<open>\<^verbatim>\<open>String.prototype.trim\<close>: whitespace is removed from both ends.\<close>

definition trimStart :: "jsstring \<Rightarrow> jsstring" where
  "trimStart s = dropWhile is_ws s"

definition trimEnd :: "jsstring \<Rightarrow> jsstring" where
  "trimEnd s = rev (dropWhile is_ws (rev s))"

definition trim :: "jsstring \<Rightarrow> jsstring" where
  "trim s = trimEnd (trimStart s)"

text \<open>
  \<^verbatim>\<open>line.replace(/\s+/g, ' ')\<close>: every maximal run of whitespace becomes one space
  (code unit 0x20).
\<close>

function replace_ws :: "jsstring \<Rightarrow> jsstring" where
  "replace_ws [] = []"
| "replace_ws (c # cs) =
     (if is_ws c then 0x20 # replace_ws (dropWhile is_ws cs) else c # replace_ws cs)"
  by pat_completeness auto
termination
  by (relation "measure length") (auto simp: length_dropWhile_le less_Suc_eq_le)

text \<open>\<^verbatim>\<open>text.split('\n')\<close>: the pieces between line feeds; never an empty array.\<close>

fun split_nl :: "jsstring \<Rightarrow> jsstring list" where
  "split_nl [] = [[]]"
| "split_nl (c # cs) =
     (if c = 0x0A then [] # split_nl cs
      else (case split_nl cs of [] \<Rightarrow> [[c]] | l # ls \<Rightarrow> (c # l) # ls))"

section \<open>The three patterns of the extractor\<close>

text \<open>
  \<^verbatim>\<open>const normalizedLine = line.replace(/\s+/g, ' ').trim();\<close>
\<close>

definition normalizedLine :: "jsstring \<Rightarrow> jsstring" where
  "normalizedLine line = trim (replace_ws line)"

text \<open>
  \<^verbatim>\<open>datePattern = /^\d{2}-\d{2}-\d{4}/\<close>, used with \<^verbatim>\<open>match\<close>: the string starts with
  two digits, a dash, two digits, a dash and four digits; anything may follow.
\<close>

definition datePattern :: "jsstring \<Rightarrow> bool" where
  "datePattern s \<longleftrightarrow>
     10 \<le> length s \<and>
     list_all is_digit (take 2 s) \<and> s ! 2 = 0x2D \<and>
     list_all is_digit (take 2 (drop 3 s)) \<and> s ! 5 = 0x2D \<and>
     list_all is_digit (take 4 (drop 6 s))"

text \<open>
  \<^verbatim>\<open>amountPattern = /^\d+(\.\d{2})?$/\<close>, used with \<^verbatim>\<open>test\<close>: the whole string is one or
  more digits, optionally followed by a dot and exactly two digits. The greedy \<^verbatim>\<open>\d+\<close>
  takes every leading digit; giving one back never helps, since a digit is neither a dot
  nor the end of the string.
\<close>

definition amountPattern :: "jsstring \<Rightarrow> bool" where
  "amountPattern s \<longleftrightarrow>
     takeWhile is_digit s \<noteq> [] \<and>
     (case dropWhile is_digit s of
        [] \<Rightarrow> True
      | [p, a, b] \<Rightarrow> p = 0x2E \<and> is_digit a \<and> is_digit b
      | _ \<Rightarrow> False)"

text \<open>\<^verbatim>\<open>typePattern = /^(DR|CR)$/\<close>, used with \<^verbatim>\<open>test\<close>.\<close>

definition typePattern :: "jsstring \<Rightarrow> bool" where
  "typePattern s \<longleftrightarrow> s = js ''DR'' \<or> s = js ''CR''"

section \<open>The accumulator\<close>

text \<open>
  The object literal \<^verbatim>\<open>{ Date, Description, Amount, Type }\<close> and the three variables of
  \<^verbatim>\<open>extractBankStatementData\<close> that the callback of \<^verbatim>\<open>lines.forEach\<close> updates.

  \<^verbatim>\<open>transactions.push(currentTransaction)\<close> stores a reference to the object. Each push of
  the source is followed, before any further write to a field, by the assignment of a new
  object literal to \<^verbatim>\<open>currentTransaction\<close> (lines 49 and 63) or by the end of the function
  (line 73), so no pushed object is written to afterwards and the list of pushed objects
  can be held by value.
\<close>

record transaction =
  Date :: jsstring
  Description :: jsstring
  Amount :: jsstring
  Type :: jsstring

record acc =
  transactions :: "transaction list"
  currentTransaction :: transaction
  inTransaction :: bool

definition blank :: transaction where
  "blank = \<lparr>Date = [], Description = [], Amount = [], Type = []\<rparr>"

definition init :: acc where
  "init = \<lparr>transactions = [], currentTransaction = blank, inTransaction = False\<rparr>"

text \<open>One call of the callback of \<^verbatim>\<open>lines.forEach\<close> (lines 39 to 70).\<close>

definition step :: "acc \<Rightarrow> jsstring \<Rightarrow> acc" where
  "step st line =
     (let n = normalizedLine line in
      if datePattern n then
        \<lparr>transactions =
           (if inTransaction st \<and> Type (currentTransaction st) = js ''DR''
            then transactions st @ [currentTransaction st] else transactions st),
         currentTransaction =
           \<lparr>Date = take 10 n, Description = trim (drop 10 n), Amount = [], Type = []\<rparr>,
         inTransaction = True\<rparr>
      else if amountPattern n then
        st\<lparr>currentTransaction := (currentTransaction st)\<lparr>Amount := n\<rparr>\<rparr>
      else if typePattern n then
        (let cur = (currentTransaction st)\<lparr>Type := n\<rparr> in
         \<lparr>transactions =
            (if Type cur = js ''DR'' then transactions st @ [cur] else transactions st),
          currentTransaction = blank,
          inTransaction = False\<rparr>)
      else if inTransaction st then
        st\<lparr>currentTransaction := (currentTransaction st)
             \<lparr>Description := Description (currentTransaction st) @ 0x20 # n\<rparr>\<rparr>
      else st)"

text \<open>The statement after the loop (lines 72 to 74).\<close>

definition flush :: "acc \<Rightarrow> transaction list" where
  "flush st =
     (if inTransaction st \<and> Type (currentTransaction st) = js ''DR''
      then transactions st @ [currentTransaction st] else transactions st)"

text \<open>Lines 35 to 76: the loop over the lines, then the flush.\<close>

definition run :: "jsstring list \<Rightarrow> acc" where
  "run lines = foldl step init lines"

definition extractLines :: "jsstring list \<Rightarrow> transaction list" where
  "extractLines lines = flush (run lines)"

text \<open>Lines 32 to 76: \<^verbatim>\<open>data.text.trim()\<close>, \<^verbatim>\<open>split('\n')\<close>, the loop and the flush.\<close>

definition extractText :: "jsstring \<Rightarrow> transaction list" where
  "extractText text = extractLines (split_nl (trim text))"

text \<open>
  The whole of \<^verbatim>\<open>extractBankStatementData\<close> (lines 27 to 81). \<^verbatim>\<open>fs.readFileSync\<close> and
  \<^verbatim>\<open>pdf\<close> (the package pdf-parse) are not code of this repository: they are parameters.
  Either may throw, which is the value \<open>Inl\<close>. \<^verbatim>\<open>pdf\<close> takes and returns the state \<open>'w\<close> of
  the collaborator, so that the number of calls made to it shows in the result.
  \<^verbatim>\<open>readFileSync\<close> is called outside the \<^verbatim>\<open>try\<close>; an error of \<^verbatim>\<open>pdf\<close> is caught, passed
  to \<^verbatim>\<open>console.error\<close> (the second component lists what was logged) and thrown again.
\<close>

definition extractBankStatementData ::
  "('p \<Rightarrow> 'e + 'b) \<Rightarrow> ('b \<Rightarrow> 'w \<Rightarrow> ('e + jsstring) \<times> 'w) \<Rightarrow> 'p \<Rightarrow> 'w
     \<Rightarrow> ('e + transaction list) \<times> 'e list \<times> 'w" where
  "extractBankStatementData readFileSync pdf pdfPath w =
     (case readFileSync pdfPath of
        Inl e \<Rightarrow> (Inl e, [], w)
      | Inr dataBuffer \<Rightarrow>
          (case pdf dataBuffer w of
             (Inl error, w') \<Rightarrow> (Inl error, [error], w')
           | (Inr text, w') \<Rightarrow> (Inr (extractText text), [], w')))"

section \<open>Predicates used in the statements\<close>







section \<open>The loop, one line at a time\<close>

lemma js_DR_nonempty: "js ''DR'' \<noteq> []"
  by (simp add: js_def)

lemma run_Nil: "run [] = init"
  by (simp add: run_def)

lemma run_snoc: "run (ls @ [l]) = step (run ls) l"
  by (simp add: run_def)

text \<open>
  Between two lines the \<^verbatim>\<open>Type\<close> field of \<^verbatim>\<open>currentTransaction\<close> is always empty: the
  only branch that writes it replaces the object in the same call.
\<close>

lemma step_Type:
  "Type (currentTransaction st) = [] \<Longrightarrow> Type (currentTransaction (step st l)) = []"
  by (simp add: step_def Let_def blank_def)

lemma run_Type: "Type (currentTransaction (run ls)) = []"
proof (induction ls rule: rev_induct)
  case Nil
  show ?case by (simp add: run_Nil init_def blank_def)
next
  case (snoc l ls)
  then show ?case by (simp add: run_snoc step_Type)
qed

lemma flush_run: "flush (run ls) = transactions (run ls)"
  using js_DR_nonempty by (simp add: flush_def run_Type)

lemma step_emitted_DR:
  assumes "\<forall>t\<in>set (transactions st). Type t = js ''DR''"
  shows "\<forall>t\<in>set (transactions (step st l)). Type t = js ''DR''"
  using assms by (auto simp: step_def Let_def)

lemma run_emitted_DR: "\<forall>t\<in>set (transactions (run ls)). Type t = js ''DR''"
proof (induction ls rule: rev_induct)
  case Nil
  show ?case by (simp add: run_Nil init_def)
next
  case (snoc l ls)
  then show ?case unfolding run_snoc by (rule step_emitted_DR)
qed

lemma flush_emitted_DR:
  assumes "\<forall>t\<in>set (transactions st). Type t = js ''DR''"
  shows "\<forall>t\<in>set (flush st). Type t = js ''DR''"
  using assms by (auto simp: flush_def)

section \<open>Trimming\<close>











section \<open>Descriptions\<close>













section \<open>The claims\<close>

text \<open>
  Claim C1: a line that is exactly \<^verbatim>\<open>DR\<close> or \<^verbatim>\<open>CR\<close>, processed while no transaction is
  open, is a complete no-op (state and output unchanged).

  The code does not satisfy this. The branch of \<^verbatim>\<open>typePattern\<close> (lines 58 to 64) does not
  test \<^verbatim>\<open>inTransaction\<close>, as the other three places that push or append do (lines 46, 66
  and 72). In the initial state the line \<^verbatim>\<open>DR\<close> is a type line, and the step pushes the
  placeholder object with an empty date and type \<^verbatim>\<open>DR\<close>: the state after differs from the
  state before.
\<close>

theorem type_line_in_idle_emits_placeholder:
  "\<not> inTransaction init
   \<and> \<not> datePattern (normalizedLine (js ''DR'')) \<and> \<not> amountPattern (normalizedLine (js ''DR''))
   \<and> typePattern (normalizedLine (js ''DR''))
   \<and> step init (js ''DR'') =
       \<lparr>transactions = [\<lparr>Date = [], Description = [], Amount = [], Type = js ''DR''\<rparr>],
        currentTransaction = blank, inTransaction = False\<rparr>
   \<and> step init (js ''DR'') \<noteq> init"
  by code_simp

text \<open>
  Claim C2: for every input text, every transaction of the output has a non-empty date
  (a token of 10 characters).

  The code does not satisfy this, by the defect of C1: on the text \<^verbatim>\<open>DR\<close> the output is
  one transaction whose date is the empty string.
\<close>

theorem extractText_DR_has_empty_date:
  "extractText (js ''DR'') = [\<lparr>Date = [], Description = [], Amount = [], Type = js ''DR''\<rparr>]"
  by code_simp

text \<open>
  Claim C3: an amount line processed while no transaction is open is a no-op: no state
  is written, and the final output is the same as if the line were absent.

  The code does not satisfy this. The branch of \<^verbatim>\<open>amountPattern\<close> (lines 56 and 57) writes
  the \<^verbatim>\<open>Amount\<close> of \<^verbatim>\<open>currentTransaction\<close> without testing \<^verbatim>\<open>inTransaction\<close>, so in the
  initial state the line \<^verbatim>\<open>5.00\<close> changes the state, and with the defect of C1 the amount
  reaches the output: the lines \<^verbatim>\<open>5.00\<close>, \<^verbatim>\<open>DR\<close> give a transaction with amount \<^verbatim>\<open>5.00\<close>,
  the line \<^verbatim>\<open>DR\<close> alone gives one with an empty amount.
\<close>

theorem amount_line_in_idle_is_kept:
  "\<not> inTransaction init
   \<and> amountPattern (normalizedLine (js ''5.00'')) \<and> \<not> datePattern (normalizedLine (js ''5.00''))
   \<and> step init (js ''5.00'') = init\<lparr>currentTransaction := blank\<lparr>Amount := js ''5.00''\<rparr>\<rparr>
   \<and> step init (js ''5.00'') \<noteq> init
   \<and> extractLines [js ''5.00'', js ''DR'']
       = [\<lparr>Date = [], Description = [], Amount = js ''5.00'', Type = js ''DR''\<rparr>]
   \<and> extractLines [js ''DR'']
       = [\<lparr>Date = [], Description = [], Amount = [], Type = js ''DR''\<rparr>]"
  by code_simp

text \<open>
  Claim C4: for every input text, every transaction of the output has type \<^verbatim>\<open>DR\<close>; none
  has type \<^verbatim>\<open>CR\<close> or an empty type.
\<close>

theorem emitted_type_is_DR: "\<forall>t\<in>set (extractText text). Type t = js ''DR''"
  unfolding extractText_def extractLines_def
  by (rule flush_emitted_DR) (rule run_emitted_DR)

text \<open>The statement of C4 on a text of three lines, whose output is one transaction.\<close>

theorem emitted_type_is_DR_witness:
  "extractText (js ''01-02-2023 GROCERY STORE'' @ [0x0A] @ js ''45.50'' @ [0x0A] @ js ''DR'')
     = [\<lparr>Date = js ''01-02-2023'', Description = js ''GROCERY STORE'',
          Amount = js ''45.50'', Type = js ''DR''\<rparr>]
   \<and> Type (extractText
        (js ''01-02-2023 GROCERY STORE'' @ [0x0A] @ js ''45.50'' @ [0x0A] @ js ''DR'') ! 0)
       = js ''DR''"
proof -
  let ?T = "js ''01-02-2023 GROCERY STORE'' @ [0x0A] @ js ''45.50'' @ [0x0A] @ js ''DR''"
  have e: "extractText ?T = [\<lparr>Date = js ''01-02-2023'', Description = js ''GROCERY STORE'',
          Amount = js ''45.50'', Type = js ''DR''\<rparr>]"
    by code_simp
  then have "extractText ?T ! 0 \<in> set (extractText ?T)" by simp
  with emitted_type_is_DR [of ?T] have "Type (extractText ?T ! 0) = js ''DR''" by blast
  with e show ?thesis by blast
qed

text \<open>
  Claim C5: whenever a transaction is open, the type of the current draft is the empty
  string; so, for every sequence of lines, the flush at the end of the input emits
  nothing: the output is the list as the loop left it.
\<close>

theorem open_draft_has_empty_type:
  "(inTransaction (run lines) \<longrightarrow> Type (currentTransaction (run lines)) = [])
   \<and> extractLines lines = transactions (run lines)"
  by (simp add: run_Type extractLines_def flush_run)

text \<open>The statement of C5 after a date line and an amount line: a draft is open.\<close>

theorem open_draft_has_empty_type_witness:
  "inTransaction (run [js ''01-02-2023 SHOP A'', js ''45.50''])
   \<and> Type (currentTransaction (run [js ''01-02-2023 SHOP A'', js ''45.50''])) = []
   \<and> extractLines [js ''01-02-2023 SHOP A'', js ''45.50''] = []"
proof -
  let ?L = "[js ''01-02-2023 SHOP A'', js ''45.50'']"
  have o: "inTransaction (run ?L)" by code_simp
  have t: "transactions (run ?L) = []" by code_simp
  from open_draft_has_empty_type [of ?L] o t show ?thesis by simp
qed




text \<open>
  Claim C7: the lines \<^verbatim>\<open>01-02-2023 SHOP A\<close>, \<^verbatim>\<open>DR\<close>, \<^verbatim>\<open>02-02-2023 SHOP B\<close>, \<^verbatim>\<open>20.00\<close>, \<^verbatim>\<open>DR\<close>
  give exactly two transactions, in this order: date \<^verbatim>\<open>01-02-2023\<close>, description
  \<^verbatim>\<open>SHOP A\<close>, empty amount, type \<^verbatim>\<open>DR\<close>; then date \<^verbatim>\<open>02-02-2023\<close>, description \<^verbatim>\<open>SHOP B\<close>,
  amount \<^verbatim>\<open>20.00\<close>, type \<^verbatim>\<open>DR\<close>.
\<close>

theorem example_two_debits:
  "extractLines
     [js ''01-02-2023 SHOP A'', js ''DR'', js ''02-02-2023 SHOP B'', js ''20.00'', js ''DR'']
   = [\<lparr>Date = js ''01-02-2023'', Description = js ''SHOP A'', Amount = [], Type = js ''DR''\<rparr>,
      \<lparr>Date = js ''02-02-2023'', Description = js ''SHOP B'', Amount = js ''20.00'',
         Type = js ''DR''\<rparr>]"
  by code_simp

text \<open>
  Claim C8: if the text extraction (\<^verbatim>\<open>pdf\<close>) fails, the extractor fails with that same
  error, with no retry (the state of the collaborator is the one its single call left)
  and no list of transactions returned. The error is also what \<^verbatim>\<open>console.error\<close> was
  given.
\<close>

theorem pdf_error_propagates:
  assumes "readFileSync pdfPath = Inr dataBuffer"
    and "pdf dataBuffer w = (Inl error, w')"
  shows "extractBankStatementData readFileSync pdf pdfPath w = (Inl error, [error], w')"
  using assms by (simp add: extractBankStatementData_def)

text \<open>The statement of C8 with a file that is read and a \<^verbatim>\<open>pdf\<close> that always fails.\<close>

theorem pdf_error_propagates_witness:
  "extractBankStatementData
     (\<lambda>p::string. (Inr (length p) :: string + nat))
     (\<lambda>(b::nat) (w::nat). (Inl ''bad XRef entry'', Suc w))
     ''statement.pdf'' 0
   = (Inl ''bad XRef entry'', [''bad XRef entry''], Suc 0)"
  by (rule pdf_error_propagates [where dataBuffer = 13]) simp_all

text \<open>
  Claim C9: a date line, processed in any state, leaves a draft whose date is the first
  10 characters of the normalised line, whose description is the trimmed rest of it and
  whose amount and type are empty; so no amount or type seen before carries over into
  it. The date has 10 characters and a transaction is open afterwards.
\<close>

theorem date_line_starts_fresh_draft:
  assumes "datePattern (normalizedLine line)"
  shows "currentTransaction (step st line) =
           \<lparr>Date = take 10 (normalizedLine line),
            Description = trim (drop 10 (normalizedLine line)),
            Amount = [], Type = []\<rparr>
         \<and> length (Date (currentTransaction (step st line))) = 10
         \<and> inTransaction (step st line)"
  using assms by (simp add: step_def Let_def datePattern_def)

text \<open>
  The statement of C9 for a date line that follows an amount line seen with no
  transaction open: the amount \<^verbatim>\<open>5.00\<close> held before the date line is not in the draft.
\<close>

theorem date_line_starts_fresh_draft_witness:
  "datePattern (normalizedLine (js ''01-02-2023   SHOP A''))
   \<and> Amount (currentTransaction (run [js ''5.00''])) = js ''5.00''
   \<and> currentTransaction (step (run [js ''5.00'']) (js ''01-02-2023   SHOP A'')) =
       \<lparr>Date = js ''01-02-2023'', Description = js ''SHOP A'', Amount = [], Type = []\<rparr>"
proof -
  let ?l = "js ''01-02-2023   SHOP A''"
  have d: "datePattern (normalizedLine ?l)" by code_simp
  have a: "Amount (currentTransaction (run [js ''5.00''])) = js ''5.00''" by code_simp
  have n: "take 10 (normalizedLine ?l) = js ''01-02-2023''"
    "trim (drop 10 (normalizedLine ?l)) = js ''SHOP A''" by code_simp+
  from date_line_starts_fresh_draft [OF d, of "run [js ''5.00'']"] n d a
  show ?thesis by simp
qed

text \<open>
  Claim C10: for every input, the date branch emits nothing: in a state the loop can
  reach, a date line leaves the list of emitted transactions as it is. A line that does
  change the list is no date line and no amount line but the type line \<^verbatim>\<open>DR\<close>, and it
  appends exactly the current object with that type; the flush at the end appends
  nothing. So every emitted transaction was appended by the type branch.
\<close>

theorem date_line_never_emits:
  "(datePattern (normalizedLine l) \<longrightarrow>
      transactions (step (run lines) l) = transactions (run lines))
   \<and> (transactions (step (run lines) l) \<noteq> transactions (run lines) \<longrightarrow>
        \<not> datePattern (normalizedLine l) \<and> \<not> amountPattern (normalizedLine l)
        \<and> normalizedLine l = js ''DR''
        \<and> transactions (step (run lines) l) =
            transactions (run lines) @ [(currentTransaction (run lines))\<lparr>Type := js ''DR''\<rparr>])
   \<and> extractLines lines = transactions (run lines)"
  using js_DR_nonempty
  by (auto simp: step_def Let_def run_Type extractLines_def flush_run)

text \<open>
  The statement of C10 with a draft open: a second date line leaves the list as it is,
  and the line \<^verbatim>\<open>DR\<close>, which changes it, is the type line.
\<close>

theorem date_line_never_emits_witness:
  "datePattern (normalizedLine (js ''02-02-2023 SHOP B''))
   \<and> transactions (step (run [js ''01-02-2023 SHOP A'']) (js ''02-02-2023 SHOP B'')) =
       transactions (run [js ''01-02-2023 SHOP A''])
   \<and> transactions (step (run [js ''01-02-2023 SHOP A'']) (js ''DR'')) \<noteq>
       transactions (run [js ''01-02-2023 SHOP A''])
   \<and> normalizedLine (js ''DR'') = js ''DR''"
proof -
  let ?L = "[js ''01-02-2023 SHOP A'']"
  have d: "datePattern (normalizedLine (js ''02-02-2023 SHOP B''))" by code_simp
  have t: "transactions (step (run ?L) (js ''DR'')) \<noteq> transactions (run ?L)" by code_simp
  from date_line_never_emits [of "js ''02-02-2023 SHOP B''" ?L] d
  have 1: "transactions (step (run ?L) (js ''02-02-2023 SHOP B'')) = transactions (run ?L)"
    by blast
  from date_line_never_emits [of "js ''DR''" ?L] t
  have 2: "normalizedLine (js ''DR'') = js ''DR''"
    by blast
  from d 1 t 2 show ?thesis by blast
qed

end
